theory Spec2Isabelle
  imports Complex_Main "HOL-Library.Char_ord" "HOL-Library.List_Lexorder"
begin

text \<open>
  A model of the two modules of the session guardian bundle: the token tracker with its
  response and request hooks, and the session state tool with its save, load and list
  operations on the state directory.  Each function of the source is a function here,
  under its own name (without the leading underscore); an exception is a value \<open>Inl e\<close>,
  mutation of the tracker or of the directory is a new tracker or directory returned.
\<close>

section \<open>Python values\<close>

text \<open>
  Both modules receive untyped data from their host (\<^verbatim>\<open>Any\<close>, \<^verbatim>\<open>dict[str, Any]\<close>):
  usage payloads, configuration entries and tool input.  They are modelled by one datatype
  of Python values: \<^verbatim>\<open>None\<close>, booleans, integers, floats, strings, lists, dictionaries
  with string keys (association lists in insertion order) and plain objects carrying data
  attributes.  A float is represented by the rational number it denotes and arithmetic on
  floats is exact: rounding, overflow, infinities and NaN are outside the model.
\<close>

datatype pyval =
    PNone
  | PBool bool
  | PInt int
  | PFloat rat
  | PStr string
  | PList "pyval list"
  | PDict "(string \<times> pyval) list"
  | PObj "(string \<times> pyval) list"

datatype pyexn =
    TypeError
  | AttributeError
  | JSONDecodeError
  | IsADirectoryError
  | FileNotFoundError
  | FileExistsError

text \<open>\<^verbatim>\<open>bool(v)\<close>: the truth value Python gives a value in \<^verbatim>\<open>if\<close>, \<^verbatim>\<open>not\<close> and \<^verbatim>\<open>or\<close>.\<close>

fun truthy :: "pyval \<Rightarrow> bool" where
  "truthy PNone = False"
| "truthy (PBool b) = b"
| "truthy (PInt i) = (i \<noteq> 0)"
| "truthy (PFloat r) = (r \<noteq> 0)"
| "truthy (PStr s) = (s \<noteq> [])"
| "truthy (PList xs) = (xs \<noteq> [])"
| "truthy (PDict kvs) = (kvs \<noteq> [])"
| "truthy (PObj attrs) = True"

text \<open>\<^verbatim>\<open>a or b\<close>.\<close>

definition py_or :: "pyval \<Rightarrow> pyval \<Rightarrow> pyval" where
  "py_or a b = (if truthy a then a else b)"

text \<open>The number a value stands for in arithmetic and ordering; \<^verbatim>\<open>bool\<close> is a subclass
  of \<^verbatim>\<open>int\<close>, every other kind of value is not a number.\<close>

fun num_of :: "pyval \<Rightarrow> rat option" where
  "num_of (PBool b) = Some (if b then 1 else 0)"
| "num_of (PInt i) = Some (of_int i)"
| "num_of (PFloat r) = Some r"
| "num_of v = None"

fun int_of :: "pyval \<Rightarrow> int option" where
  "int_of (PBool b) = Some (if b then 1 else 0)"
| "int_of (PInt i) = Some i"
| "int_of v = None"

text \<open>\<^verbatim>\<open>a < b\<close>, \<^verbatim>\<open>a <= b\<close> and \<^verbatim>\<open>a > b\<close> where one side is a number: ordering a number
  against a value that is not a number raises \<^verbatim>\<open>TypeError\<close>.\<close>

definition py_lt :: "pyval \<Rightarrow> pyval \<Rightarrow> pyexn + bool" where
  "py_lt a b = (case (num_of a, num_of b) of
       (Some x, Some y) \<Rightarrow> Inr (x < y)
     | _ \<Rightarrow> Inl TypeError)"

definition py_le :: "pyval \<Rightarrow> pyval \<Rightarrow> pyexn + bool" where
  "py_le a b = (case (num_of a, num_of b) of
       (Some x, Some y) \<Rightarrow> Inr (x \<le> y)
     | _ \<Rightarrow> Inl TypeError)"

definition py_gt :: "pyval \<Rightarrow> pyval \<Rightarrow> pyexn + bool" where
  "py_gt a b = (case (num_of a, num_of b) of
       (Some x, Some y) \<Rightarrow> Inr (x > y)
     | _ \<Rightarrow> Inl TypeError)"

text \<open>\<^verbatim>\<open>a + b\<close> with a number on the left (the only use is \<^verbatim>\<open>counter += value\<close>):
  two integers give an integer, a float on either side gives a float, anything else
  raises \<^verbatim>\<open>TypeError\<close>.\<close>

definition py_add :: "pyval \<Rightarrow> pyval \<Rightarrow> pyexn + pyval" where
  "py_add a b = (case (int_of a, int_of b) of
       (Some i, Some j) \<Rightarrow> Inr (PInt (i + j))
     | _ \<Rightarrow> (case (num_of a, num_of b) of
           (Some x, Some y) \<Rightarrow> Inr (PFloat (x + y))
         | _ \<Rightarrow> Inl TypeError))"

text \<open>\<^verbatim>\<open>d.get(key, default)\<close>: only a dictionary has the method.\<close>

definition dict_get :: "(string \<times> pyval) list \<Rightarrow> string \<Rightarrow> pyval \<Rightarrow> pyval" where
  "dict_get kvs k dflt = (case map_of kvs k of Some v \<Rightarrow> v | None \<Rightarrow> dflt)"

definition py_get :: "pyval \<Rightarrow> string \<Rightarrow> pyval \<Rightarrow> pyexn + pyval" where
  "py_get d k dflt = (case d of PDict kvs \<Rightarrow> Inr (dict_get kvs k dflt) | _ \<Rightarrow> Inl AttributeError)"

text \<open>\<^verbatim>\<open>getattr(obj, name, default)\<close>: the data attributes of a plain object; the other
  kinds of value have no attribute of the names looked up here.\<close>

definition py_getattr :: "pyval \<Rightarrow> string \<Rightarrow> pyval \<Rightarrow> pyval" where
  "py_getattr obj k dflt = (case obj of PObj attrs \<Rightarrow> dict_get attrs k dflt | _ \<Rightarrow> dflt)"

text \<open>\<^verbatim>\<open>int(x)\<close> of a float truncates towards zero.\<close>

definition py_int :: "rat \<Rightarrow> int" where
  "py_int r = (if 0 \<le> r then \<lfloor>r\<rfloor> else \<lceil>r\<rceil>)"

text \<open>\<^verbatim>\<open>str(n)\<close> of an integer, as an f-string and \<^verbatim>\<open>%d\<close> render it.\<close>

definition digit_char :: "nat \<Rightarrow> char" where
  "digit_char d = ''0123456789'' ! d"

fun nat_digits :: "nat \<Rightarrow> string" where
  "nat_digits n = (if n < 10 then [digit_char n] else nat_digits (n div 10) @ [digit_char (n mod 10)])"

definition str_int :: "int \<Rightarrow> string" where
  "str_int i = (if i < 0 then CHR ''-'' # nat_digits (nat (- i)) else nat_digits (nat i))"

section \<open>Session guardian: token tracking\<close>

text \<open>The constructor arguments of \<^verbatim>\<open>HookResult\<close>, a class of the host: each field is
  the keyword argument the guardian passes, \<open>None\<close> where it passes none.\<close>

record HookResult =
  action :: string
  context_injection :: "string option"
  context_injection_role :: "string option"
  ephemeral :: "bool option"
  user_message :: "string option"
  user_message_level :: "string option"

definition hook_continue :: HookResult where
  "hook_continue = \<lparr> action = ''continue'', context_injection = None,
     context_injection_role = None, ephemeral = None, user_message = None,
     user_message_level = None \<rparr>"

record TokenTracker =
  context_window :: pyval
  soft_threshold :: pyval
  hard_threshold :: pyval
  latest_input_tokens :: pyval
  cumulative_output_tokens :: pyval
  turn_count :: int

text \<open>\<^verbatim>\<open>TokenTracker.__init__\<close>: the three settings come from the configuration
  dictionary unchecked, the counters start at zero.\<close>

definition TokenTracker_init :: "(string \<times> pyval) list \<Rightarrow> TokenTracker" where
  "TokenTracker_init config = \<lparr>
     context_window = dict_get config ''context_window'' (PInt 200000),
     soft_threshold = dict_get config ''soft_threshold'' (PFloat (60 / 100)),
     hard_threshold = dict_get config ''hard_threshold'' (PFloat (80 / 100)),
     latest_input_tokens = PInt 0,
     cumulative_output_tokens = PInt 0,
     turn_count = 0 \<rparr>"

text \<open>The property \<^verbatim>\<open>usage_pct\<close>: \<^verbatim>\<open>0.0\<close> for a window that is not positive, else the
  true division of the latest input count by the window.\<close>

definition usage_pct :: "TokenTracker \<Rightarrow> pyexn + rat" where
  "usage_pct t = (case py_le (context_window t) (PInt 0) of
       Inl e \<Rightarrow> Inl e
     | Inr True \<Rightarrow> Inr 0
     | Inr False \<Rightarrow> (case (num_of (latest_input_tokens t), num_of (context_window t)) of
           (Some a, Some b) \<Rightarrow> Inr (a / b)
         | _ \<Rightarrow> Inl TypeError))"

text \<open>\<^verbatim>\<open>_extract_tokens\<close>: \<^verbatim>\<open>(0, 0)\<close> for \<^verbatim>\<open>None\<close>; the two entries of a dictionary,
  or the two attributes of any other value, each replaced by \<^verbatim>\<open>0\<close> when absent or
  falsy.  Nothing in the guarded block can raise on the values of the model, so its
  handler is never entered.\<close>

definition extract_tokens :: "pyval \<Rightarrow> pyval \<times> pyval" where
  "extract_tokens usage = (case usage of
       PNone \<Rightarrow> (PInt 0, PInt 0)
     | PDict kvs \<Rightarrow> (py_or (dict_get kvs ''input_tokens'' (PInt 0)) (PInt 0),
                    py_or (dict_get kvs ''output_tokens'' (PInt 0)) (PInt 0))
     | _ \<Rightarrow> (py_or (py_getattr usage ''input_tokens'' (PInt 0)) (PInt 0),
            py_or (py_getattr usage ''output_tokens'' (PInt 0)) (PInt 0)))"

text \<open>The guarded block of \<^verbatim>\<open>_handle_response\<close>, statement by statement.  The tracker
  is mutated in place, so an exception leaves it as the statements before had made it:
  the result is the tracker reached and the exception raised, if any.  The last step
  is the evaluation of \<^verbatim>\<open>tracker.usage_pct * 100\<close> for the log call.\<close>

definition response_body :: "TokenTracker \<Rightarrow> pyval \<Rightarrow> TokenTracker \<times> pyexn option" where
  "response_body t data = (case py_get data ''usage'' PNone of
       Inl e \<Rightarrow> (t, Some e)
     | Inr usage \<Rightarrow>
        (let (input_tokens, output_tokens) = extract_tokens usage in
         case py_gt input_tokens (PInt 0) of
           Inl e \<Rightarrow> (t, Some e)
         | Inr pos \<Rightarrow>
            (let t1 = (if pos then t\<lparr>latest_input_tokens := input_tokens\<rparr> else t) in
             case py_add (cumulative_output_tokens t1) output_tokens of
               Inl e \<Rightarrow> (t1, Some e)
             | Inr c \<Rightarrow>
                (let t2 = t1\<lparr>cumulative_output_tokens := c\<rparr>;
                     t3 = t2\<lparr>turn_count := turn_count t2 + 1\<rparr>
                 in case usage_pct t3 of Inl e \<Rightarrow> (t3, Some e) | Inr p \<Rightarrow> (t3, None)))))"

text \<open>\<^verbatim>\<open>_handle_response\<close>: the block above inside \<^verbatim>\<open>try\<close>; the handler of
  \<^verbatim>\<open>except Exception\<close> only logs, and the function returns the same result on both
  paths.  \<open>Inl\<close> would be an exception reaching the host.\<close>

definition handle_response :: "TokenTracker \<Rightarrow> pyval \<Rightarrow> TokenTracker \<times> (pyexn + HookResult)" where
  "handle_response t data = (case response_body t data of
       (t', Some e) \<Rightarrow> (t', Inr hook_continue)
     | (t', None) \<Rightarrow> (t', Inr hook_continue))"

text \<open>The bytes of the dash (U+2014) in the guardian's messages, in UTF-8.\<close>

definition em_dash :: string where
  "em_dash = [CHR 0xE2, CHR 0x80, CHR 0x94]"

definition inject :: "string \<Rightarrow> string option \<Rightarrow> string option \<Rightarrow> HookResult" where
  "inject msg um lvl = \<lparr> action = ''inject_context'', context_injection = Some msg,
     context_injection_role = Some ''system'', ephemeral = Some True,
     user_message = um, user_message_level = lvl \<rparr>"

definition info_result :: "int \<Rightarrow> int \<Rightarrow> HookResult" where
  "info_result pct_int turn = inject
     (''[Session Guardian: '' @ str_int pct_int @ ''% context used, turn '' @ str_int turn @ '']'')
     None None"

definition soft_result :: "int \<Rightarrow> HookResult" where
  "soft_result pct_int = inject
     (''[Session Guardian: '' @ str_int pct_int @ ''% context '' @ em_dash
        @ '' save progress with session_state tool now. Continue working but be concise.]'')
     (Some (''Session Guardian: '' @ str_int pct_int @ ''% context used '' @ em_dash
        @ '' saving progress recommended''))
     (Some ''warning'')"

definition hard_result :: "int \<Rightarrow> HookResult" where
  "hard_result pct_int = inject
     (''[Session Guardian: '' @ str_int pct_int @ ''% context '' @ em_dash
        @ '' HANDOFF REQUIRED. Save state immediately and tell the user to start a new session.]'')
     (Some (''Session Guardian: '' @ str_int pct_int @ ''% context used '' @ em_dash
        @ '' handoff required!''))
     (Some ''error'')"

text \<open>The guarded block of \<^verbatim>\<open>_handle_request\<close>: the percentage, then the two
  comparisons in the order of the source, each of which may raise.\<close>

definition request_body :: "TokenTracker \<Rightarrow> pyexn + HookResult" where
  "request_body t = (case usage_pct t of
       Inl e \<Rightarrow> Inl e
     | Inr pct \<Rightarrow>
        (let pct_int = py_int (pct * 100); turn = turn_count t in
         case py_lt (PFloat pct) (soft_threshold t) of
           Inl e \<Rightarrow> Inl e
         | Inr True \<Rightarrow> Inr (info_result pct_int turn)
         | Inr False \<Rightarrow>
            (case py_lt (PFloat pct) (hard_threshold t) of
               Inl e \<Rightarrow> Inl e
             | Inr True \<Rightarrow> Inr (soft_result pct_int)
             | Inr False \<Rightarrow> Inr (hard_result pct_int))))"

text \<open>\<^verbatim>\<open>_handle_request\<close>: any exception of the block is logged and replaced by the
  plain \<^verbatim>\<open>continue\<close> result.  The event data is not read.\<close>

definition handle_request :: "TokenTracker \<Rightarrow> pyval \<Rightarrow> pyexn + HookResult" where
  "handle_request t data = (case request_body t of
       Inl e \<Rightarrow> Inr hook_continue
     | Inr r \<Rightarrow> Inr r)"

text \<open>A session: the response events in the order they arrive.\<close>

fun run_responses :: "TokenTracker \<Rightarrow> pyval list \<Rightarrow> TokenTracker" where
  "run_responses t [] = t"
| "run_responses t (d # ds) = run_responses (fst (handle_response t d)) ds"

section \<open>Session state tool: the store\<close>

text \<open>\<^verbatim>\<open>ToolResult(output=...)\<close> and \<^verbatim>\<open>ToolResult(error=...)\<close>, a class of the host.\<close>

datatype ToolResult = Output string | Error string

text \<open>An entry of the state directory: a regular file with its text and modification
  time, or a subdirectory with its reported size and modification time.  Times are
  microseconds since the Unix epoch.  A subdirectory is the entry on which
  \<^verbatim>\<open>unlink\<close> and \<^verbatim>\<open>read_text\<close> raise.\<close>

datatype entry = RegFile string int | SubDir nat int

fun st_mtime :: "entry \<Rightarrow> int" where
  "st_mtime (RegFile content m) = m"
| "st_mtime (SubDir sz m) = m"


text \<open>What the path \<^verbatim>\<open>.session-state\<close> is: nothing, something that is not a directory,
  or a directory with its entries in listing order (names are distinct in a directory).\<close>

datatype node = Missing | NotADirectory | Directory "(string \<times> entry) list"

text \<open>A \<^verbatim>\<open>datetime\<close> in UTC, with the fields Python stores.\<close>

record datetime =
  year :: nat
  month :: nat
  day :: nat
  hour :: nat
  minute :: nat
  second :: nat
  microsecond :: nat

definition zero_pad :: "nat \<Rightarrow> nat \<Rightarrow> string" where
  "zero_pad w n = replicate (w - length (nat_digits n)) CHR ''0'' @ nat_digits n"

text \<open>\<^verbatim>\<open>now.strftime("%Y-%m-%dT%H-%M-%S")\<close>.\<close>

definition strftime :: "datetime \<Rightarrow> string" where
  "strftime dt = zero_pad 4 (year dt) @ ''-'' @ zero_pad 2 (month dt) @ ''-'' @ zero_pad 2 (day dt)
     @ ''T'' @ zero_pad 2 (hour dt) @ ''-'' @ zero_pad 2 (minute dt) @ ''-'' @ zero_pad 2 (second dt)"

text \<open>\<^verbatim>\<open>now.isoformat()\<close> of a datetime in UTC: the fraction only when it is not zero.\<close>

definition isoformat :: "datetime \<Rightarrow> string" where
  "isoformat dt = zero_pad 4 (year dt) @ ''-'' @ zero_pad 2 (month dt) @ ''-'' @ zero_pad 2 (day dt)
     @ ''T'' @ zero_pad 2 (hour dt) @ '':'' @ zero_pad 2 (minute dt) @ '':'' @ zero_pad 2 (second dt)
     @ (if microsecond dt = 0 then [] else ''.'' @ zero_pad 6 (microsecond dt))
     @ ''+00:00''"

text \<open>The instant of a datetime in microseconds since the epoch, by the proleptic
  Gregorian day count of Python's \<^verbatim>\<open>datetime\<close> (day 719163 is 1970-01-01).  Comparing
  two datetimes in UTC compares these numbers, and subtracting a \<^verbatim>\<open>timedelta\<close> subtracts
  its microseconds.\<close>

definition is_leap :: "nat \<Rightarrow> bool" where
  "is_leap y = (y mod 4 = 0 \<and> (y mod 100 \<noteq> 0 \<or> y mod 400 = 0))"

definition days_before_year :: "nat \<Rightarrow> int" where
  "days_before_year y = (let p = int y - 1 in p * 365 + p div 4 - p div 100 + p div 400)"

definition days_before_month :: "nat \<Rightarrow> nat \<Rightarrow> int" where
  "days_before_month y m =
     [0, 0, 31, 59, 90, 120, 151, 181, 212, 243, 273, 304, 334] ! m
       + (if 2 < m \<and> is_leap y then 1 else 0)"

definition ymd2ord :: "nat \<Rightarrow> nat \<Rightarrow> nat \<Rightarrow> int" where
  "ymd2ord y m d = days_before_year y + days_before_month y m + int d"

definition micros :: "datetime \<Rightarrow> int" where
  "micros dt = (((ymd2ord (year dt) (month dt) (day dt) - 719163) * 24 + int (hour dt)) * 60
       + int (minute dt)) * 60000000 + int (second dt) * 1000000 + int (microsecond dt)"

definition STATE_DIR :: string where "STATE_DIR = ''.session-state''"

definition SCHEMA_VERSION :: int where "SCHEMA_VERSION = 1"

definition PRUNE_DAYS :: int where "PRUNE_DAYS = 7"

text \<open>The functions of the standard library the tool calls and this development does
  not define: \<^verbatim>\<open>json.dumps(v, indent=2)\<close>, \<^verbatim>\<open>json.loads(s)\<close> and \<^verbatim>\<open>str(exc)\<close>.  They are
  parameters of the operations.\<close>

record pylib =
  dumps :: "pyval \<Rightarrow> pyexn + string"
  loads :: "string \<Rightarrow> pyexn + pyval"
  exc_str :: "pyexn \<Rightarrow> string"

definition is_OSError :: "pyexn \<Rightarrow> bool" where
  "is_OSError e = (e = IsADirectoryError \<or> e = FileNotFoundError \<or> e = FileExistsError)"

text \<open>\<^verbatim>\<open>state_dir.glob("*.json")\<close>: the names of the entries that end in \<^verbatim>\<open>.json\<close>,
  files and subdirectories alike.\<close>

definition is_json :: "string \<Rightarrow> bool" where
  "is_json name = (5 \<le> length name \<and> drop (length name - 5) name = ''.json'')"

definition glob_json :: "(string \<times> entry) list \<Rightarrow> string list" where
  "glob_json d = filter is_json (map fst d)"

definition path_str :: "string \<Rightarrow> string" where
  "path_str name = STATE_DIR @ ''/'' @ name"

text \<open>\<^verbatim>\<open>state_dir.mkdir(parents=True, exist_ok=True)\<close>.\<close>

definition mkdir :: "node \<Rightarrow> pyexn + (string \<times> entry) list" where
  "mkdir fs = (case fs of
       Missing \<Rightarrow> Inr []
     | Directory d \<Rightarrow> Inr d
     | NotADirectory \<Rightarrow> Inl FileExistsError)"

text \<open>\<^verbatim>\<open>filepath.write_text(content)\<close> at time \<open>m\<close>: a new entry, or the old file of that
  name replaced.\<close>

definition write_text :: "(string \<times> entry) list \<Rightarrow> string \<Rightarrow> string \<Rightarrow> int
     \<Rightarrow> pyexn + (string \<times> entry) list" where
  "write_text d name content m = (case map_of d name of
       None \<Rightarrow> Inr (d @ [(name, RegFile content m)])
     | Some (RegFile old m') \<Rightarrow>
         Inr (map (\<lambda>(n, e). if n = name then (n, RegFile content m) else (n, e)) d)
     | Some (SubDir sz m') \<Rightarrow> Inl IsADirectoryError)"

definition read_text :: "entry \<Rightarrow> pyexn + string" where
  "read_text e = (case e of RegFile content m \<Rightarrow> Inr content | SubDir sz m \<Rightarrow> Inl IsADirectoryError)"

definition unlink :: "(string \<times> entry) list \<Rightarrow> string \<Rightarrow> pyexn + (string \<times> entry) list" where
  "unlink d name = (case map_of d name of
       None \<Rightarrow> Inl FileNotFoundError
     | Some (RegFile content m) \<Rightarrow> Inr (filter (\<lambda>(n, e). n \<noteq> name) d)
     | Some (SubDir sz m) \<Rightarrow> Inl IsADirectoryError)"

text \<open>\<^verbatim>\<open>sep.join(xs)\<close>.\<close>

fun join :: "string \<Rightarrow> string list \<Rightarrow> string" where
  "join sep [] = []"
| "join sep [x] = x"
| "join sep (x # y # ys) = x @ sep @ join sep (y # ys)"

text \<open>\<^verbatim>\<open>_get_session_id\<close>: the \<^verbatim>\<open>session_id\<close> of the coordinator's \<^verbatim>\<open>config\<close>, a
  dictionary or an object; \<^verbatim>\<open>None\<close> when there is none.\<close>

definition get_session_id :: "pyval \<Rightarrow> pyval" where
  "get_session_id coordinator = (case coordinator of
       PObj attrs \<Rightarrow> (case map_of attrs ''config'' of
           None \<Rightarrow> PNone
         | Some (PDict kvs) \<Rightarrow> dict_get kvs ''session_id'' PNone
         | Some cfg \<Rightarrow> py_getattr cfg ''session_id'' PNone)
     | _ \<Rightarrow> PNone)"

text \<open>The loop of \<^verbatim>\<open>_prune_old_states\<close> over the names the glob returned: \<^verbatim>\<open>stat\<close>,
  the comparison with the cutoff, \<^verbatim>\<open>unlink\<close> and the count, with every exception of one
  round dropped by \<^verbatim>\<open>except Exception: pass\<close>.\<close>

fun prune_loop :: "string list \<Rightarrow> (string \<times> entry) list \<Rightarrow> nat \<Rightarrow> int
     \<Rightarrow> (string \<times> entry) list \<times> nat" where
  "prune_loop [] d pruned cutoff = (d, pruned)"
| "prune_loop (f # fs) d pruned cutoff = (case map_of d f of
       None \<Rightarrow> prune_loop fs d pruned cutoff
     | Some e \<Rightarrow>
        (if st_mtime e < cutoff
         then (case unlink d f of
                 Inl ex \<Rightarrow> prune_loop fs d pruned cutoff
               | Inr d' \<Rightarrow> prune_loop fs d' (pruned + 1) cutoff)
         else prune_loop fs d pruned cutoff))"

definition prune_old_states :: "(string \<times> entry) list \<Rightarrow> datetime \<Rightarrow> (string \<times> entry) list \<times> nat" where
  "prune_old_states d now =
     prune_loop (glob_json d) d 0 (micros now - PRUNE_DAYS * 86400000000)"

definition required_fields :: "string list" where
  "required_fields = [''summary'', ''accomplished'', ''remaining'']"

text \<open>The state document \<^verbatim>\<open>_save_state\<close> builds, keys in insertion order.\<close>

definition state_document :: "pyval \<Rightarrow> (string \<times> pyval) list \<Rightarrow> datetime \<Rightarrow> pyval" where
  "state_document coordinator input now = PDict (
     [(''version'', PInt SCHEMA_VERSION),
      (''timestamp'', PStr (isoformat now)),
      (''summary'', dict_get input ''summary'' PNone),
      (''accomplished'', dict_get input ''accomplished'' PNone),
      (''remaining'', dict_get input ''remaining'' PNone)]
     @ (if truthy (dict_get input ''decisions'' PNone)
        then [(''decisions'', dict_get input ''decisions'' PNone)] else [])
     @ (if truthy (dict_get input ''context'' PNone)
        then [(''context'', dict_get input ''context'' PNone)] else [])
     @ (if truthy (get_session_id coordinator)
        then [(''session_id'', get_session_id coordinator)] else []))"

definition saved_message :: "string \<Rightarrow> nat \<Rightarrow> string" where
  "saved_message filename pruned = ''State saved to '' @ path_str filename
     @ (if pruned \<noteq> 0
        then '' (pruned '' @ str_int (int pruned) @ '' old file'' @ (if pruned \<noteq> 1 then ''s'' else '''') @ '')''
        else [])"

text \<open>\<^verbatim>\<open>_save_state\<close>: validation, then the directory, the document, the write (the new
  file's modification time is the time of the save) and the pruning.  The result is the
  state directory afterwards and either the tool result or the exception that leaves
  the method.\<close>

definition save_state :: "pylib \<Rightarrow> pyval \<Rightarrow> (string \<times> pyval) list \<Rightarrow> node \<Rightarrow> datetime
     \<Rightarrow> node \<times> (pyexn + ToolResult)" where
  "save_state lib coordinator input fs now =
    (let missing = filter (\<lambda>f. \<not> truthy (dict_get input f PNone)) required_fields in
     if missing \<noteq> [] then (fs, Inr (Error (''save_state requires: '' @ join '', '' missing)))
     else (case mkdir fs of
         Inl ex \<Rightarrow> (fs, Inl ex)
       | Inr d \<Rightarrow>
          (let filename = strftime now @ ''.json'' in
           case dumps lib (state_document coordinator input now) of
             Inl ex \<Rightarrow> (Directory d, Inl ex)
           | Inr text \<Rightarrow>
              (case write_text d filename (text @ [CHR 0x0A]) (micros now) of
                 Inl ex \<Rightarrow> (Directory d, Inl ex)
               | Inr d1 \<Rightarrow>
                  (let (d2, pruned) = prune_old_states d1 now
                   in (Directory d2, Inr (Output (saved_message filename pruned))))))))"

text \<open>\<^verbatim>\<open>sorted(paths, reverse=True)\<close> on the names of one directory, which are distinct:
  descending order of the strings.\<close>

definition sorted_reverse :: "string list \<Rightarrow> string list" where
  "sorted_reverse names = rev (sort names)"

text \<open>\<^verbatim>\<open>_load_state\<close>: the file whose name sorts last; \<^verbatim>\<open>JSONDecodeError\<close> and
  \<^verbatim>\<open>OSError\<close> become an error result, any other exception leaves the method.\<close>

definition load_state :: "pylib \<Rightarrow> node \<Rightarrow> pyexn + ToolResult" where
  "load_state lib fs = (case fs of
       Directory d \<Rightarrow>
        (case sorted_reverse (glob_json d) of
           [] \<Rightarrow> Inr (Output ''No state files found. This appears to be a fresh session.'')
         | latest # others \<Rightarrow>
            (let failed = (\<lambda>ex. Error (''Failed to read '' @ path_str latest @ '': '' @ exc_str lib ex)) in
             case map_of d latest of
               None \<Rightarrow> Inr (failed FileNotFoundError)
             | Some e \<Rightarrow>
                (case read_text e of
                   Inl ex \<Rightarrow> Inr (failed ex)
                 | Inr text \<Rightarrow>
                    (case loads lib text of
                       Inl ex \<Rightarrow> if ex = JSONDecodeError \<or> is_OSError ex then Inr (failed ex) else Inl ex
                     | Inr content \<Rightarrow>
                        (case dumps lib content of
                           Inl ex \<Rightarrow> Inl ex
                         | Inr out \<Rightarrow> Inr (Output out))))))
     | _ \<Rightarrow> Inr (Output ''No session state directory found. This appears to be a fresh session.''))"




section \<open>The vocabulary of the properties\<close>

text \<open>What one response event reports, as the handler reads it: the extracted input and
  output counts, or nothing when the event data is not a dictionary.\<close>

definition observed_input :: "pyval \<Rightarrow> pyval option" where
  "observed_input data = (case py_get data ''usage'' PNone of
       Inl e \<Rightarrow> None | Inr usage \<Rightarrow> Some (fst (extract_tokens usage)))"

definition observed_output :: "pyval \<Rightarrow> pyval option" where
  "observed_output data = (case py_get data ''usage'' PNone of
       Inl e \<Rightarrow> None | Inr usage \<Rightarrow> Some (snd (extract_tokens usage)))"

definition strictly_positive :: "pyval \<Rightarrow> bool" where
  "strictly_positive v = (case num_of v of Some r \<Rightarrow> 0 < r | None \<Rightarrow> False)"

definition negative :: "pyval \<Rightarrow> bool" where
  "negative v = (case num_of v of Some r \<Rightarrow> r < 0 | None \<Rightarrow> False)"

definition non_negative :: "pyval \<Rightarrow> bool" where
  "non_negative v = (case num_of v of Some r \<Rightarrow> 0 \<le> r | None \<Rightarrow> False)"

text \<open>The strictly positive input counts a session reported, in order of arrival: the last
  of them is the most recent positive observation.\<close>

definition positive_inputs :: "pyval list \<Rightarrow> pyval list" where
  "positive_inputs ds = filter strictly_positive (List.map_filter observed_input ds)"

text \<open>An event whose counts are numbers: the data is a dictionary, the extracted input
  count is a number and the extracted output count an integer.\<close>

definition well_typed_event :: "pyval \<Rightarrow> bool" where
  "well_typed_event data = (case py_get data ''usage'' PNone of
       Inl e \<Rightarrow> False
     | Inr usage \<Rightarrow> num_of (fst (extract_tokens usage)) \<noteq> None
          \<and> int_of (snd (extract_tokens usage)) \<noteq> None)"

definition output_count :: "pyval \<Rightarrow> int" where
  "output_count data = (case observed_output data of
       Some v \<Rightarrow> (case int_of v of Some i \<Rightarrow> i | None \<Rightarrow> 0)
     | None \<Rightarrow> 0)"


text \<open>A snapshot the retention rule removes: a regular file matching the glob whose
  modification time is before the cutoff of seven days.\<close>

definition is_regular :: "entry \<Rightarrow> bool" where
  "is_regular e = (case e of RegFile content m \<Rightarrow> True | SubDir sz m \<Rightarrow> False)"

definition expired :: "datetime \<Rightarrow> entry \<Rightarrow> bool" where
  "expired now e = (st_mtime e < micros now - PRUNE_DAYS * 86400000000)"

definition snapshot_expired :: "datetime \<Rightarrow> string \<times> entry \<Rightarrow> bool" where
  "snapshot_expired now ne = (is_json (fst ne) \<and> is_regular (snd ne) \<and> expired now (snd ne))"

text \<open>The entries one pruning round removes, given the names still to visit.\<close>

definition doomed :: "string set \<Rightarrow> int \<Rightarrow> string \<times> entry \<Rightarrow> bool" where
  "doomed names cutoff ne = (fst ne \<in> names \<and> st_mtime (snd ne) < cutoff \<and> is_regular (snd ne))"

section \<open>Example inputs\<close>

text \<open>A response event carrying a usage dictionary, and a tracker with a window of 100
  tokens and thresholds 0.5 and 0.8 after one response.\<close>

definition event :: "pyval \<Rightarrow> pyval \<Rightarrow> pyval" where
  "event i out = PDict [(''usage'', PDict [(''input_tokens'', i), (''output_tokens'', out)])]"


text \<open>A save on 2026-11-04 at 12:58:07 UTC, its input, the document it builds and the text
  \<^verbatim>\<open>json.dumps(doc, indent=2)\<close> gives for it; \<open>example_lib\<close> is the JSON library on
  this one document.  The directory \<open>dir0\<close> holds an old snapshot, a file that is not
  a snapshot, an old subdirectory matching the glob and a recent snapshot.\<close>

definition now0 :: datetime where
  "now0 = \<lparr> year = 2026, month = 11, day = 4, hour = 12, minute = 58, second = 7, microsecond = 0 \<rparr>"

definition input0 :: "(string \<times> pyval) list" where
  "input0 = [(''operation'', PStr ''save_state''), (''summary'', PStr ''Parser done''),
     (''accomplished'', PList [PStr ''lexer'']), (''remaining'', PList [PStr ''tests''])]"

definition text0 :: string where
  \<open>text0 = join [CHR 0x0A]
    [''{'',
     ''  "version": 1,'',
     ''  "timestamp": "2026-11-04T12:58:07+00:00",'',
     ''  "summary": "Parser done",'',
     ''  "accomplished": ['',
     ''    "lexer"'',
     ''  ],'',
     ''  "remaining": ['',
     ''    "tests"'',
     ''  ]'',
     ''}'']\<close>

definition doc0 :: pyval where
  "doc0 = PDict [(''version'', PInt 1), (''timestamp'', PStr ''2026-11-04T12:58:07+00:00''),
     (''summary'', PStr ''Parser done''), (''accomplished'', PList [PStr ''lexer'']),
     (''remaining'', PList [PStr ''tests''])]"

definition example_lib :: pylib where
  "example_lib = \<lparr>
     dumps = (\<lambda>v. if v = doc0 then Inr text0 else Inl TypeError),
     loads = (\<lambda>s. if s = text0 @ [CHR 0x0A] then Inr doc0 else Inl JSONDecodeError),
     exc_str = (\<lambda>e. []) \<rparr>"

definition dir0 :: "(string \<times> entry) list" where
  "dir0 = [(''2026-09-21T08-00-00.json'', RegFile ''{}'' 1790000000000000),
     (''notes.txt'', RegFile ''keep'' 1790000000000000),
     (''archive.json'', SubDir 4096 1790000000000000),
     (''2026-11-03T09-30-00.json'', RegFile ''{}'' 1793700000000000)]"

section \<open>Evaluation on concrete inputs\<close>

lemmas eval_defs = event_def handle_response_def response_body_def extract_tokens_def
  py_get_def dict_get_def py_or_def py_gt_def py_add_def py_le_def usage_pct_def
  TokenTracker_init_def observed_output_def observed_input_def well_typed_event_def output_count_def

lemma doc0_eval: "state_document PNone input0 now0 = doc0"
  by (simp add: state_document_def input0_def now0_def doc0_def dict_get_def isoformat_def
      zero_pad_def digit_char_def get_session_id_def SCHEMA_VERSION_def)

lemma strftime0: "strftime now0 = ''2026-11-04T12-58-07''"
  by (simp add: strftime_def now0_def zero_pad_def digit_char_def)

lemma micros0: "micros now0 = 1793797087000000"
  by (simp add: micros_def now0_def ymd2ord_def days_before_year_def days_before_month_def is_leap_def)

lemma input0_valid: "\<forall>f \<in> set required_fields. truthy (dict_get input0 f PNone)"
  by (simp add: required_fields_def input0_def dict_get_def)

lemma dumps0: "dumps example_lib (state_document PNone input0 now0) = Inr text0"
  by (simp add: doc0_eval example_lib_def)


section \<open>The response handler\<close>

lemma handle_response_fst: "fst (handle_response t d) = fst (response_body t d)"
  by (simp add: handle_response_def split: prod.splits option.splits)

lemma handle_response_snd: "snd (handle_response t d) = Inr hook_continue"
  by (simp add: handle_response_def split: prod.splits option.splits)

lemma py_gt_zero: "py_gt v (PInt 0) = Inr b \<Longrightarrow> b = strictly_positive v"
  by (auto simp: py_gt_def strictly_positive_def split: option.splits)

lemma py_gt_zero_fail: "py_gt v (PInt 0) = Inl e \<Longrightarrow> \<not> strictly_positive v"
  by (auto simp: py_gt_def strictly_positive_def split: option.splits)

lemma response_latest:
  "latest_input_tokens (fst (response_body t d)) =
     (case observed_input d of
        Some v \<Rightarrow> if strictly_positive v then v else latest_input_tokens t
      | None \<Rightarrow> latest_input_tokens t)"
  by (auto simp: response_body_def observed_input_def Let_def
      split: sum.splits prod.splits option.splits dest: py_gt_zero py_gt_zero_fail)

lemma run_responses_append:
  "run_responses t (ds @ [d]) = fst (handle_response (run_responses t ds) d)"
  by (induction ds arbitrary: t) simp_all

lemma positive_inputs_snoc:
  "positive_inputs (ds @ [d]) = positive_inputs ds @
     (case observed_input d of Some v \<Rightarrow> if strictly_positive v then [v] else [] | None \<Rightarrow> [])"
  by (simp add: positive_inputs_def List.map_filter_def split: option.splits)

subsection \<open>The latest input count\<close>

text \<open>Claim C2.  After any sequence of response events, \<^verbatim>\<open>latest_input_tokens\<close> is the input
  count of the most recent event whose extracted input count was strictly positive, and
  the value it had before when there was no such event: events reporting zero, nothing,
  a negative count or a value that is not a number leave it unchanged.\<close>

theorem latest_input_is_last_positive:
  "latest_input_tokens (run_responses t ds) =
     (if positive_inputs ds = [] then latest_input_tokens t else last (positive_inputs ds))"
proof (induction ds rule: rev_induct)
  case Nil
  show ?case by (simp add: positive_inputs_def List.map_filter_def)
next
  case (snoc d ds)
  show ?case
    by (simp add: run_responses_append handle_response_fst response_latest
        positive_inputs_snoc snoc split: option.splits)
qed

text \<open>The inputs 1000, 0, 3000 end with 3000.\<close>

theorem latest_input_is_last_positive_witness:
  "positive_inputs [event (PInt 1000) (PInt 50), event (PInt 0) (PInt 75), event (PInt 3000) (PInt 0)]
     = [PInt 1000, PInt 3000]
   \<and> latest_input_tokens (run_responses (TokenTracker_init [])
        [event (PInt 1000) (PInt 50), event (PInt 0) (PInt 75), event (PInt 3000) (PInt 0)]) = PInt 3000"
proof -
  have p: "positive_inputs [event (PInt 1000) (PInt 50), event (PInt 0) (PInt 75), event (PInt 3000) (PInt 0)]
     = [PInt 1000, PInt 3000]"
    by (simp add: positive_inputs_def List.map_filter_def strictly_positive_def eval_defs)
  from latest_input_is_last_positive [of "TokenTracker_init []"
      "[event (PInt 1000) (PInt 50), event (PInt 0) (PInt 75), event (PInt 3000) (PInt 0)]"] p
  show ?thesis by simp
qed

subsection \<open>The output total and the turn count\<close>

lemma response_counters_well_typed:
  assumes "well_typed_event d" and "cumulative_output_tokens t = PInt c"
  shows "cumulative_output_tokens (fst (response_body t d)) = PInt (c + output_count d)
       \<and> turn_count (fst (response_body t d)) = turn_count t + 1"
  using assms
  by (auto simp: response_body_def well_typed_event_def output_count_def observed_output_def
      py_gt_def py_add_def Let_def
      split: sum.splits prod.splits option.splits)

lemma run_counters_well_typed:
  assumes "list_all well_typed_event ds" and "cumulative_output_tokens t = PInt c"
  shows "cumulative_output_tokens (run_responses t ds) = PInt (c + sum_list (map output_count ds))
       \<and> turn_count (run_responses t ds) = turn_count t + int (length ds)"
  using assms
proof (induction ds arbitrary: t c)
  case Nil
  then show ?case by simp
next
  case (Cons d ds)
  from Cons.prems have wt: "well_typed_event d" and rest: "list_all well_typed_event ds"
    by simp_all
  let ?t1 = "fst (handle_response t d)"
  from response_counters_well_typed [OF wt Cons.prems(2)]
  have c1: "cumulative_output_tokens ?t1 = PInt (c + output_count d)"
    and n1: "turn_count ?t1 = turn_count t + 1"
    by (simp_all add: handle_response_fst)
  from Cons.IH [OF rest c1] show ?case
    by (simp add: n1 add.assoc)
qed

text \<open>Claim C8, as the code has it.  After any sequence of response events whose counts are
  numbers, \<^verbatim>\<open>cumulative_output_tokens\<close> is the sum of the extracted output counts and
  \<^verbatim>\<open>turn_count\<close> the number of events.\<close>

theorem counters_of_well_typed_session:
  assumes "list_all well_typed_event ds"
  shows "cumulative_output_tokens (run_responses (TokenTracker_init config) ds)
           = PInt (sum_list (map output_count ds))
       \<and> turn_count (run_responses (TokenTracker_init config) ds) = int (length ds)"
  using run_counters_well_typed [OF assms, of "TokenTracker_init config" 0]
  by (simp add: TokenTracker_init_def)

text \<open>The outputs 50, 75, 0 give 125 after 3 turns.\<close>

theorem counters_of_well_typed_session_witness:
  "list_all well_typed_event [event (PInt 1000) (PInt 50), event (PInt 0) (PInt 75), event (PInt 3000) (PInt 0)]
   \<and> cumulative_output_tokens (run_responses (TokenTracker_init [])
        [event (PInt 1000) (PInt 50), event (PInt 0) (PInt 75), event (PInt 3000) (PInt 0)]) = PInt 125
   \<and> turn_count (run_responses (TokenTracker_init [])
        [event (PInt 1000) (PInt 50), event (PInt 0) (PInt 75), event (PInt 3000) (PInt 0)]) = 3"
proof -
  have wt: "list_all well_typed_event [event (PInt 1000) (PInt 50), event (PInt 0) (PInt 75), event (PInt 3000) (PInt 0)]"
    by (simp add: eval_defs)
  have s: "sum_list (map output_count [event (PInt 1000) (PInt 50), event (PInt 0) (PInt 75), event (PInt 3000) (PInt 0)]) = 125"
    by (simp add: eval_defs)
  from counters_of_well_typed_session [OF wt, of "[]"] wt show ?thesis
    unfolding s by simp
qed

text \<open>Claim C8, as stated, fails on an event whose input count is not a number: the
  comparison with zero raises inside the guarded block, the output count of 50 is not
  added and the turn is not counted.\<close>

theorem malformed_event_not_counted:
  "observed_output (event (PStr ''many'') (PInt 50)) = Some (PInt 50)
   \<and> cumulative_output_tokens (run_responses (TokenTracker_init []) [event (PStr ''many'') (PInt 50)]) = PInt 0
   \<and> turn_count (run_responses (TokenTracker_init []) [event (PStr ''many'') (PInt 50)]) = 0"
  by (simp add: eval_defs)

subsection \<open>Growth of the output total\<close>









subsection \<open>Sign of the latest input count and of the usage fraction\<close>

lemma strictly_positive_non_negative: "strictly_positive v \<Longrightarrow> non_negative v"
  by (auto simp: strictly_positive_def non_negative_def split: option.splits)

lemma negative_not_positive: "negative v \<Longrightarrow> \<not> strictly_positive v"
  by (auto simp: strictly_positive_def negative_def split: option.splits)

lemma response_latest_non_negative:
  "non_negative (latest_input_tokens t) \<Longrightarrow>
   non_negative (latest_input_tokens (fst (response_body t d)))"
  by (simp add: response_latest strictly_positive_non_negative split: option.splits)

lemma run_latest_non_negative:
  "non_negative (latest_input_tokens t) \<Longrightarrow>
   non_negative (latest_input_tokens (run_responses t ds))"
  by (induction ds arbitrary: t) (simp_all add: handle_response_fst response_latest_non_negative)

lemma usage_pct_non_negative:
  assumes "non_negative (latest_input_tokens t)" and "usage_pct t = Inr p"
  shows "0 \<le> p"
  using assms
  by (auto simp: usage_pct_def py_le_def non_negative_def
      split: sum.splits option.splits bool.splits if_splits)

text \<open>Claim C10.  After every sequence of response events \<^verbatim>\<open>latest_input_tokens\<close> is a
  number that is not negative; whenever \<^verbatim>\<open>usage_pct\<close> has a value it is not negative and
  \<^verbatim>\<open>int(usage_pct * 100)\<close> is the floor of \<^verbatim>\<open>usage_pct * 100\<close>; and an event reporting a
  negative input count leaves \<^verbatim>\<open>latest_input_tokens\<close> unchanged.\<close>

theorem latest_input_never_negative:
  "non_negative (latest_input_tokens (run_responses (TokenTracker_init config) ds))
   \<and> (\<forall>p. usage_pct (run_responses (TokenTracker_init config) ds) = Inr p
        \<longrightarrow> 0 \<le> p \<and> py_int (p * 100) = \<lfloor>p * 100\<rfloor>)
   \<and> (\<forall>v. observed_input d = Some v \<and> negative v
        \<longrightarrow> latest_input_tokens (fst (handle_response (run_responses (TokenTracker_init config) ds) d))
            = latest_input_tokens (run_responses (TokenTracker_init config) ds))"
proof -
  let ?t = "run_responses (TokenTracker_init config) ds"
  have nn: "non_negative (latest_input_tokens ?t)"
    by (rule run_latest_non_negative) (simp add: TokenTracker_init_def non_negative_def)
  have pct: "0 \<le> p \<and> py_int (p * 100) = \<lfloor>p * 100\<rfloor>" if "usage_pct ?t = Inr p" for p
  proof -
    from usage_pct_non_negative [OF nn that] have "0 \<le> p" .
    then show ?thesis by (simp add: py_int_def)
  qed
  have neg: "latest_input_tokens (fst (handle_response ?t d)) = latest_input_tokens ?t"
    if "observed_input d = Some v \<and> negative v" for v
    using that by (simp add: handle_response_fst response_latest negative_not_positive)
  from nn pct neg show ?thesis by blast
qed

theorem latest_input_never_negative_witness:
  "observed_input (event (PInt (- 7)) (PInt 1)) = Some (PInt (- 7)) \<and> negative (PInt (- 7))
   \<and> usage_pct (run_responses (TokenTracker_init [(''context_window'', PInt 1000)]) [event (PInt 455) (PInt 1)])
       = Inr (455 / 1000)
   \<and> py_int (455 / 1000 * 100) = 45
   \<and> latest_input_tokens (fst (handle_response
        (run_responses (TokenTracker_init [(''context_window'', PInt 1000)]) [event (PInt 455) (PInt 1)])
        (event (PInt (- 7)) (PInt 1)))) = PInt 455"
proof -
  have u: "usage_pct (run_responses (TokenTracker_init [(''context_window'', PInt 1000)]) [event (PInt 455) (PInt 1)])
       = Inr (455 / 1000)"
    by (simp add: eval_defs)
  have o: "observed_input (event (PInt (- 7)) (PInt 1)) = Some (PInt (- 7)) \<and> negative (PInt (- 7))"
    by (simp add: eval_defs negative_def)
  have l: "latest_input_tokens (run_responses (TokenTracker_init [(''context_window'', PInt 1000)]) [event (PInt 455) (PInt 1)]) = PInt 455"
    by (simp add: eval_defs)
  have f: "py_int (455 / 1000 * 100) = 45"
    by (simp add: py_int_def floor_eq_iff)
  note inst = latest_input_never_negative [of "[(''context_window'', PInt 1000)]"
      "[event (PInt 455) (PInt 1)]" "event (PInt (- 7)) (PInt 1)"]
  note third = inst [THEN conjunct2, THEN conjunct2, THEN spec, THEN mp, OF o]
  from third u o l f show ?thesis by (simp only: simp_thms)
qed

section \<open>The request handler\<close>

text \<open>Claim C7.  Neither handler lets an exception reach the host: for every tracker and every
  event data \<^verbatim>\<open>_handle_response\<close> returns the \<^verbatim>\<open>continue\<close> result, \<^verbatim>\<open>_handle_request\<close>
  returns a result, and whenever its guarded block raises that result is the plain
  \<^verbatim>\<open>continue\<close> result, which injects nothing.\<close>

theorem guardian_handlers_never_raise:
  "snd (handle_response t d) = Inr hook_continue
   \<and> (\<exists>r. handle_request t d = Inr r)
   \<and> (\<forall>e. request_body t = Inl e \<longrightarrow> handle_request t d = Inr hook_continue)"
  by (auto simp: handle_response_snd handle_request_def split: sum.splits)

text \<open>A window configured as a string makes the band computation raise.\<close>

theorem guardian_handlers_never_raise_witness:
  "request_body (TokenTracker_init [(''context_window'', PStr ''200k'')]) = Inl TypeError
   \<and> handle_request (TokenTracker_init [(''context_window'', PStr ''200k'')]) PNone = Inr hook_continue
   \<and> snd (handle_response (TokenTracker_init []) (PList [])) = Inr hook_continue"
proof -
  have b: "request_body (TokenTracker_init [(''context_window'', PStr ''200k'')]) = Inl TypeError"
    by (simp add: request_body_def eval_defs)
  from guardian_handlers_never_raise [of "TokenTracker_init []" "PList []"]
    guardian_handlers_never_raise [of "TokenTracker_init [(''context_window'', PStr ''200k'')]" PNone] b
  show ?thesis by blast
qed






section \<open>Saving, loading and listing\<close>




lemma load_state_fresh:
  "load_state lib Missing = Inr (Output ''No session state directory found. This appears to be a fresh session.'')"
  "load_state lib NotADirectory = Inr (Output ''No session state directory found. This appears to be a fresh session.'')"
  "glob_json d = [] \<Longrightarrow>
     load_state lib (Directory d) = Inr (Output ''No state files found. This appears to be a fresh session.'')"
  by (simp_all add: load_state_def sorted_reverse_def)

text \<open>Claim C6.  \<^verbatim>\<open>load_state\<close> on a state directory that does not exist, and on one that
  holds no snapshot file, returns an output, not an error; the two messages are
  different.\<close>

theorem load_latest_fresh_session:
  "load_state lib Missing
     = Inr (Output ''No session state directory found. This appears to be a fresh session.'')
   \<and> (glob_json d = [] \<longrightarrow> load_state lib (Directory d)
         = Inr (Output ''No state files found. This appears to be a fresh session.''))
   \<and> ''No session state directory found. This appears to be a fresh session.''
       \<noteq> ''No state files found. This appears to be a fresh session.''"
  by (simp add: load_state_fresh)

theorem load_latest_fresh_session_witness:
  "glob_json [(''notes.txt'', RegFile ''keep'' 1790000000000000)] = []
   \<and> load_state example_lib (Directory [(''notes.txt'', RegFile ''keep'' 1790000000000000)])
       = Inr (Output ''No state files found. This appears to be a fresh session.'')"
proof -
  have g: "glob_json [(''notes.txt'', RegFile ''keep'' 1790000000000000)] = []"
    by (simp add: glob_json_def is_json_def)
  from load_latest_fresh_session [of example_lib "[(''notes.txt'', RegFile ''keep'' 1790000000000000)]"] g
  show ?thesis by simp
qed

subsection \<open>Pruning\<close>

lemma distinct_filter_fst: "distinct (map fst d) \<Longrightarrow> distinct (map fst (filter P d))"
  by (simp add: distinct_map_filter)

lemma filter_absent_key: "f \<notin> fst ` set d \<Longrightarrow> filter (\<lambda>(n, e). n \<noteq> f) d = d"
  by (induction d) auto

lemma unlink_length:
  "distinct (map fst d) \<Longrightarrow> map_of d f = Some e \<Longrightarrow>
   length (filter (\<lambda>(n, e). n \<noteq> f) d) + 1 = length d"
proof (induction d)
  case Nil
  then show ?case by simp
next
  case (Cons ne d)
  obtain n e' where ne: "ne = (n, e')" by (cases ne)
  show ?case
  proof (cases "n = f")
    case True
    with Cons.prems ne have "f \<notin> fst ` set d" by simp
    from filter_absent_key [OF this] True ne show ?thesis by simp
  next
    case False
    with Cons ne show ?thesis by simp
  qed
qed

lemma prune_loop_kept:
  assumes "distinct (map fst d)" and "distinct names"
  shows "fst (prune_loop names d p c) = filter (\<lambda>ne. \<not> doomed (set names) c ne) d"
  using assms
proof (induction names arbitrary: d p)
  case Nil
  then show ?case by (simp add: doomed_def)
next
  case (Cons f fs)
  from Cons.prems have dfs: "distinct fs" and nf: "f \<notin> set fs" by simp_all
  note IH = Cons.IH [OF _ dfs]
  show ?case
  proof (cases "map_of d f")
    case None
    then have "f \<notin> fst ` set d" by (simp add: map_of_eq_None_iff)
    then have eq: "ne \<in> set d \<Longrightarrow> doomed (set (f # fs)) c ne = doomed (set fs) c ne" for ne
      by (auto simp: doomed_def)
    have "filter (\<lambda>ne. \<not> doomed (set (f # fs)) c ne) d = filter (\<lambda>ne. \<not> doomed (set fs) c ne) d"
      by (rule filter_cong [OF refl]) (simp only: eq)
    with None IH [OF Cons.prems(1), of p] show ?thesis by simp
  next
    case (Some e)
    have uniq: "e' = e" if "(f, e') \<in> set d" for e'
      using Cons.prems(1) Some that by simp
    show ?thesis
    proof (cases "st_mtime e < c \<and> is_regular e")
      case False
      have eq: "doomed (set (f # fs)) c ne = doomed (set fs) c ne" if "ne \<in> set d" for ne
        using that uniq [of "snd ne"] False nf by (cases ne) (auto simp: doomed_def)
      have "filter (\<lambda>ne. \<not> doomed (set (f # fs)) c ne) d = filter (\<lambda>ne. \<not> doomed (set fs) c ne) d"
        by (rule filter_cong [OF refl]) (simp only: eq)
      with Some False IH [OF Cons.prems(1), of p] show ?thesis
        by (cases e) (auto simp: unlink_def is_regular_def)
    next
      case True
      then obtain content m where e: "e = RegFile content m" and old: "m < c"
        by (cases e) (auto simp: is_regular_def)
      let ?d' = "filter (\<lambda>(n, e). n \<noteq> f) d"
      have step: "prune_loop (f # fs) d p c = prune_loop fs ?d' (p + 1) c"
        using Some e old by (simp add: unlink_def)
      have d': "distinct (map fst ?d')"
        using Cons.prems(1) by (rule distinct_filter_fst)
      have eq: "((case ne of (n, e) \<Rightarrow> n \<noteq> f) \<and> \<not> doomed (set fs) c ne) = (\<not> doomed (set (f # fs)) c ne)"
        if "ne \<in> set d" for ne
        using that uniq [of "snd ne"] True by (cases ne) (auto simp: doomed_def)
      have "filter (\<lambda>ne. \<not> doomed (set fs) c ne) ?d'
          = filter (\<lambda>ne. (case ne of (n, e) \<Rightarrow> n \<noteq> f) \<and> \<not> doomed (set fs) c ne) d"
        by (simp add: conj_commute)
      also have "\<dots> = filter (\<lambda>ne. \<not> doomed (set (f # fs)) c ne) d"
        by (rule filter_cong [OF refl]) (simp only: eq)
      finally show ?thesis
        using IH [OF d', of "p + 1"] step by simp
    qed
  qed
qed

lemma prune_loop_count:
  assumes "distinct (map fst d)"
  shows "snd (prune_loop names d p c) + length (fst (prune_loop names d p c)) = p + length d"
  using assms
proof (induction names arbitrary: d p)
  case Nil
  then show ?case by simp
next
  case (Cons f fs)
  show ?case
  proof (cases "map_of d f")
    case None
    with Cons.IH [OF Cons.prems, of p] show ?thesis by simp
  next
    case (Some e)
    show ?thesis
    proof (cases "st_mtime e < c \<and> is_regular e")
      case False
      with Some Cons.IH [OF Cons.prems, of p] show ?thesis
        by (cases e) (auto simp: unlink_def is_regular_def)
    next
      case True
      then obtain content m where e: "e = RegFile content m" and old: "m < c"
        by (cases e) (auto simp: is_regular_def)
      let ?d' = "filter (\<lambda>(n, e). n \<noteq> f) d"
      have step: "prune_loop (f # fs) d p c = prune_loop fs ?d' (p + 1) c"
        using Some e old by (simp add: unlink_def)
      have d': "distinct (map fst ?d')"
        using Cons.prems by (rule distinct_filter_fst)
      from Cons.IH [OF d', of "p + 1"] unlink_length [OF Cons.prems Some] step
      show ?thesis by simp
    qed
  qed
qed

lemma prune_loop_filter:
  assumes "distinct (map fst d)" and "distinct names"
  shows "prune_loop names d p c =
     (filter (\<lambda>ne. \<not> doomed (set names) c ne) d, p + length (filter (doomed (set names) c) d))"
proof -
  have "length (filter (doomed (set names) c) d) + length (filter (\<lambda>ne. \<not> doomed (set names) c ne) d)
      = length d"
    by (rule sum_length_filter_compl)
  with prune_loop_count [OF assms(1), of names p c] prune_loop_kept [OF assms, of p c]
  show ?thesis
    by (cases "prune_loop names d p c") simp
qed


lemma write_text_distinct:
  assumes "distinct (map fst d)" and "write_text d name content m = Inr d1"
  shows "distinct (map fst d1)"
proof (cases "map_of d name")
  case None
  then have "name \<notin> fst ` set d" by (simp add: map_of_eq_None_iff)
  with assms None show ?thesis by (auto simp: write_text_def)
next
  case (Some e)
  have same: "map fst (map (\<lambda>(n, e). if n = name then (n, RegFile content m) else (n, e)) d) = map fst d"
    by (induction d) auto
  from assms(2) Some have "map fst d1 = map fst d"
    by (cases e) (auto simp only: write_text_def option.case entry.case same sum.inject)
  with assms(1) show ?thesis by simp
qed

lemma glob_json_distinct: "distinct (map fst d) \<Longrightarrow> distinct (glob_json d)"
  by (simp add: glob_json_def)

lemma doomed_glob:
  "ne \<in> set d \<Longrightarrow>
   doomed (set (glob_json d)) (micros now - PRUNE_DAYS * 86400000000) ne = snapshot_expired now ne"
  by (cases ne) (force simp: doomed_def glob_json_def snapshot_expired_def expired_def)

lemma prune_old_states_filter:
  assumes "distinct (map fst d)"
  shows "prune_old_states d now =
     (filter (\<lambda>ne. \<not> snapshot_expired now ne) d, length (filter (snapshot_expired now) d))"
proof -
  let ?c = "micros now - PRUNE_DAYS * 86400000000"
  have "filter (\<lambda>ne. \<not> doomed (set (glob_json d)) ?c ne) d = filter (\<lambda>ne. \<not> snapshot_expired now ne) d"
    by (rule filter_cong [OF refl]) (simp only: doomed_glob)
  moreover have "filter (doomed (set (glob_json d)) ?c) d = filter (snapshot_expired now) d"
    by (rule filter_cong [OF refl]) (simp only: doomed_glob)
  ultimately show ?thesis
    using prune_loop_filter [OF assms glob_json_distinct [OF assms], of 0 ?c]
    by (simp add: prune_old_states_def)
qed

lemma save_state_success:
  assumes "\<forall>f \<in> set required_fields. truthy (dict_get input f PNone)"
    and "mkdir fs = Inr d"
    and "dumps lib (state_document coordinator input now) = Inr text"
    and "write_text d (strftime now @ ''.json'') (text @ [CHR 0x0A]) (micros now) = Inr d1"
  shows "save_state lib coordinator input fs now =
     (Directory (fst (prune_old_states d1 now)),
      Inr (Output (saved_message (strftime now @ ''.json'') (snd (prune_old_states d1 now)))))"
proof -
  from assms(1) have "filter (\<lambda>f. \<not> truthy (dict_get input f PNone)) required_fields = []"
    by (simp add: filter_empty_conv)
  with assms(2-4) show ?thesis
    by (simp add: save_state_def Let_def split: prod.splits)
qed

lemma save_result_after_pruning:
  assumes "\<forall>f \<in> set required_fields. truthy (dict_get input f PNone)"
    and "mkdir fs = Inr d"
    and "distinct (map fst d)"
    and "dumps lib (state_document coordinator input now) = Inr text"
    and "write_text d (strftime now @ ''.json'') (text @ [CHR 0x0A]) (micros now) = Inr d1"
  shows "save_state lib coordinator input fs now =
     (Directory (filter (\<lambda>ne. \<not> snapshot_expired now ne) d1),
      Inr (Output (saved_message (strftime now @ ''.json'')
         (length (filter (snapshot_expired now) d1)))))"
proof -
  from write_text_distinct [OF assms(3) assms(5)] have "distinct (map fst d1)" .
  from prune_old_states_filter [OF this, of now] save_state_success [OF assms(1,2,4,5)]
  show ?thesis by simp
qed

text \<open>Claim C5.  A successful save removes from the directory exactly the snapshot files whose
  modification time is before the time of the save minus seven days, and its message
  reports their number.  An entry whose removal raises (a subdirectory matching the glob)
  stays, the pass goes on and the save succeeds.\<close>

theorem save_prunes_expired_snapshots:
  assumes "\<forall>f \<in> set required_fields. truthy (dict_get input f PNone)"
    and "mkdir fs = Inr d"
    and "distinct (map fst d)"
    and "dumps lib (state_document coordinator input now) = Inr text"
    and "write_text d (strftime now @ ''.json'') (text @ [CHR 0x0A]) (micros now) = Inr d1"
  shows "save_state lib coordinator input fs now =
     (Directory (filter (\<lambda>ne. \<not> snapshot_expired now ne) d1),
      Inr (Output (saved_message (strftime now @ ''.json'')
         (length (filter (snapshot_expired now) d1)))))"
  using assms by (rule save_result_after_pruning)

text \<open>One of four entries is an expired snapshot: it alone is removed, and the message says
  so.\<close>

theorem save_prunes_expired_snapshots_witness:
  "truthy (dict_get input0 ''summary'' PNone) \<and> truthy (dict_get input0 ''accomplished'' PNone)
   \<and> truthy (dict_get input0 ''remaining'' PNone)
   \<and> mkdir (Directory dir0) = Inr dir0 \<and> distinct (map fst dir0)
   \<and> save_state example_lib PNone input0 (Directory dir0) now0 =
       (Directory [(''notes.txt'', RegFile ''keep'' 1790000000000000),
          (''archive.json'', SubDir 4096 1790000000000000),
          (''2026-11-03T09-30-00.json'', RegFile ''{}'' 1793700000000000),
          (''2026-11-04T12-58-07.json'', RegFile (text0 @ [CHR 0x0A]) 1793797087000000)],
        Inr (Output ''State saved to .session-state/2026-11-04T12-58-07.json (pruned 1 old file)''))"
proof -
  let ?d1 = "dir0 @ [(''2026-11-04T12-58-07.json'', RegFile (text0 @ [CHR 0x0A]) 1793797087000000)]"
  have mk: "mkdir (Directory dir0) = Inr dir0" by (simp add: mkdir_def)
  have dist: "distinct (map fst dir0)" by (simp add: dir0_def)
  have wr: "write_text dir0 (strftime now0 @ ''.json'') (text0 @ [CHR 0x0A]) (micros now0) = Inr ?d1"
    by (simp add: strftime0 micros0 write_text_def dir0_def)
  have ex: "filter (\<lambda>ne. \<not> snapshot_expired now0 ne) ?d1 =
     [(''notes.txt'', RegFile ''keep'' 1790000000000000),
      (''archive.json'', SubDir 4096 1790000000000000),
      (''2026-11-03T09-30-00.json'', RegFile ''{}'' 1793700000000000),
      (''2026-11-04T12-58-07.json'', RegFile (text0 @ [CHR 0x0A]) 1793797087000000)]"
    and cnt: "length (filter (snapshot_expired now0) ?d1) = 1"
    by (simp_all add: snapshot_expired_def expired_def is_regular_def is_json_def micros0
        PRUNE_DAYS_def dir0_def)
  have msg: "saved_message (strftime now0 @ ''.json'') 1
      = ''State saved to .session-state/2026-11-04T12-58-07.json (pruned 1 old file)''"
    by (simp add: saved_message_def strftime0 path_str_def STATE_DIR_def str_int_def digit_char_def)
  have fields: "truthy (dict_get input0 ''summary'' PNone) \<and> truthy (dict_get input0 ''accomplished'' PNone)
      \<and> truthy (dict_get input0 ''remaining'' PNone)"
    using input0_valid by (simp add: required_fields_def)
  from save_prunes_expired_snapshots [OF input0_valid mk dist dumps0 wr] fields mk dist
  show ?thesis
    unfolding ex cnt msg by simp
qed

subsection \<open>Round trip\<close>










end
